theory Spec2Isabelle
  imports Main
begin

section \<open>The GitHub trending scraper (scraper.py)\<close>

text \<open>
  The scraper is a sequence of calls into libraries (urllib.robotparser, requests,
  BeautifulSoup, os, json, logging).  The embedding keeps the control flow of
  \<^verbatim>\<open>scraper.py\<close> as it is written and makes its effects explicit:
  every function takes the world and returns the world together with either its result
  or the exception it raised.  Python's \<^verbatim>\<open>str\<close> is a \<open>string\<close>
  holding the UTF-8 bytes of the text.
\<close>

subsection \<open>Configuration\<close>





subsection \<open>Exceptions\<close>

text \<open>
  The exception classes the control flow tells apart.  \<open>RequestException\<close> stands for
  requests.RequestException and its subclasses (HTTPError, ConnectionError, RetryError,
  Timeout), \<open>OSError\<close> for the failures of the file system and of urllib,
  \<open>ParserRejectedMarkup\<close> for the exception of BeautifulSoup when the HTML parser
  gives up on the markup, \<open>UnicodeEncodeError\<close> for a text the console cannot encode,
  \<open>Exception\<close> for any other instance of Exception, and \<open>BaseException\<close> for what
  \<^verbatim>\<open>except Exception\<close> does not catch (KeyboardInterrupt, SystemExit).
  Each carries the text that \<^verbatim>\<open>f"{e}"\<close> prints.
\<close>

datatype exn =
    AttributeError string
  | RequestException string
  | OSError string
  | ParserRejectedMarkup string
  | UnicodeEncodeError string
  | Exception string
  | BaseException string

fun str_exn :: "exn \<Rightarrow> string" where
  "str_exn (AttributeError m) = m"
| "str_exn (RequestException m) = m"
| "str_exn (OSError m) = m"
| "str_exn (ParserRejectedMarkup m) = m"
| "str_exn (UnicodeEncodeError m) = m"
| "str_exn (Exception m) = m"
| "str_exn (BaseException m) = m"

fun is_Exception :: "exn \<Rightarrow> bool" where
  "is_Exception (BaseException m) = False"
| "is_Exception e = True"


subsection \<open>The world: diagnostics, network trace and file system\<close>

datatype level = INFO | WARNING | ERROR

record world =
  logged :: "(level \<times> string) list"
  printed :: "string list"
  requested :: "string list"
  files :: "string \<Rightarrow> string option"
  dirs :: "string set"

definition logging_info :: "string \<Rightarrow> world \<Rightarrow> world" where
  "logging_info msg w = w\<lparr>logged := logged w @ [(INFO, msg)]\<rparr>"

definition logging_warning :: "string \<Rightarrow> world \<Rightarrow> world" where
  "logging_warning msg w = w\<lparr>logged := logged w @ [(WARNING, msg)]\<rparr>"

definition logging_error :: "string \<Rightarrow> world \<Rightarrow> world" where
  "logging_error msg w = w\<lparr>logged := logged w @ [(ERROR, msg)]\<rparr>"

text \<open>
  \<^verbatim>\<open>print\<close> of a message that holds no status marker: a line on the console.
  (The messages with a status marker are printed by \<open>py_print_marked\<close> below, which
  can fail.)
\<close>

definition py_print :: "string \<Rightarrow> world \<Rightarrow> world" where
  "py_print msg w = w\<lparr>printed := printed w @ [msg]\<rparr>"

subsection \<open>Strings\<close>

text \<open>\<^verbatim>\<open>str(n)\<close> for a length: the decimal digits.\<close>

fun str_nat :: "nat \<Rightarrow> string" where
  "str_nat n =
     (if n < 10 then [char_of (48 + n)]
      else str_nat (n div 10) @ [char_of (48 + n mod 10)])"

declare str_nat.simps [simp del]

text \<open>
  The code points \<^verbatim>\<open>str.strip()\<close> removes (those with
  \<^verbatim>\<open>str.isspace()\<close>), each as its UTF-8 bytes: U+0009 to U+000D, U+001C to
  U+0020, U+0085, U+00A0, U+1680, U+2000 to U+200A, U+2028, U+2029, U+202F, U+205F, U+3000.
\<close>

definition whitespace :: "string list" where
  "whitespace =
     [[CHR 0x09], [CHR 0x0A], [CHR 0x0B], [CHR 0x0C], [CHR 0x0D],
      [CHR 0x1C], [CHR 0x1D], [CHR 0x1E], [CHR 0x1F], [CHR 0x20],
      [CHR 0xC2, CHR 0x85], [CHR 0xC2, CHR 0xA0], [CHR 0xE1, CHR 0x9A, CHR 0x80],
      [CHR 0xE2, CHR 0x80, CHR 0x80], [CHR 0xE2, CHR 0x80, CHR 0x81],
      [CHR 0xE2, CHR 0x80, CHR 0x82], [CHR 0xE2, CHR 0x80, CHR 0x83],
      [CHR 0xE2, CHR 0x80, CHR 0x84], [CHR 0xE2, CHR 0x80, CHR 0x85],
      [CHR 0xE2, CHR 0x80, CHR 0x86], [CHR 0xE2, CHR 0x80, CHR 0x87],
      [CHR 0xE2, CHR 0x80, CHR 0x88], [CHR 0xE2, CHR 0x80, CHR 0x89],
      [CHR 0xE2, CHR 0x80, CHR 0x8A], [CHR 0xE2, CHR 0x80, CHR 0xA8],
      [CHR 0xE2, CHR 0x80, CHR 0xA9], [CHR 0xE2, CHR 0x80, CHR 0xAF],
      [CHR 0xE2, CHR 0x81, CHR 0x9F], [CHR 0xE3, CHR 0x80, CHR 0x80]]"

text \<open>
  The length of the code point of \<open>cps\<close> that \<open>s\<close> starts with, 0 when it starts
  with none of them.
\<close>

definition lead_len :: "string list \<Rightarrow> string \<Rightarrow> nat" where
  "lead_len cps s =
     (case List.find (\<lambda>cp. take (length cp) s = cp) cps of
        None \<Rightarrow> 0
      | Some cp \<Rightarrow> length cp)"

function lstrip :: "string list \<Rightarrow> string \<Rightarrow> string" where
  "lstrip cps s = (if lead_len cps s = 0 then s else lstrip cps (drop (lead_len cps s) s))"
  by pat_completeness auto
termination
proof (relation "measure (\<lambda>(cps, s). length s)")
  show "wf (measure (\<lambda>(cps, s). length s))" by simp
next
  fix cps :: "string list" and s :: string
  assume nz: "lead_len cps s \<noteq> 0"
  have "lead_len cps s \<le> length s"
  proof (cases "List.find (\<lambda>cp. take (length cp) s = cp) cps")
    case None
    then show ?thesis by (simp add: lead_len_def)
  next
    case (Some cp)
    then have "take (length cp) s = cp" by (auto simp: find_Some_iff)
    then have "length (take (length cp) s) = length cp" by simp
    then have "length cp \<le> length s" by simp
    with Some show ?thesis by (simp add: lead_len_def)
  qed
  with nz show "((cps, drop (lead_len cps s) s), (cps, s)) \<in> measure (\<lambda>(cps, s). length s)"
    by simp
qed

declare lstrip.simps [simp del]

definition rstrip :: "string list \<Rightarrow> string \<Rightarrow> string" where
  "rstrip cps s = rev (lstrip (map rev cps) (rev s))"

text \<open>\<^verbatim>\<open>s.strip()\<close> and \<^verbatim>\<open>s.strip('/')\<close>.\<close>

definition strip :: "string \<Rightarrow> string" where
  "strip s = rstrip whitespace (lstrip whitespace s)"

definition strip_slash :: "string \<Rightarrow> string" where
  "strip_slash s = rstrip [''/''] (lstrip [''/''] s)"

text \<open>\<^verbatim>\<open>s.replace(',', '')\<close>.\<close>

definition remove_commas :: "string \<Rightarrow> string" where
  "remove_commas s = filter (\<lambda>c. c \<noteq> CHR '','') s"

text \<open>\<^verbatim>\<open>s.endswith(suffix)\<close>.\<close>

definition endswith :: "string \<Rightarrow> string \<Rightarrow> bool" where
  "endswith s suf = (length suf \<le> length s \<and> drop (length s - length suf) s = suf)"

subsection \<open>The parsed document (BeautifulSoup)\<close>

text \<open>
  The tree \<^verbatim>\<open>BeautifulSoup(html, 'html.parser')\<close> builds.  A tag has its name,
  the list of its classes (the parser keeps \<^verbatim>\<open>class\<close> as a list), its other
  attributes (each a \<^verbatim>\<open>str\<close>) and its children; the other nodes are strings
  and comments.  \<open>Comment\<close> also stands for the other strings that
  \<^verbatim>\<open>.text\<close> leaves out (the content of a script, a style or a template).
\<close>

datatype node =
    Tag string "string list" "(string \<times> string) list" "node list"
  | NavigableString string
  | Comment string

fun tag_name :: "node \<Rightarrow> string option" where
  "tag_name (Tag n cs as ch) = Some n"
| "tag_name (NavigableString s) = None"
| "tag_name (Comment s) = None"

fun classes :: "node \<Rightarrow> string list" where
  "classes (Tag n cs as ch) = cs"
| "classes (NavigableString s) = []"
| "classes (Comment s) = []"

text \<open>\<^verbatim>\<open>tag.get(key)\<close>: the attribute, or None.\<close>

fun attr :: "node \<Rightarrow> string \<Rightarrow> string option" where
  "attr (Tag n cs as ch) key = map_of as key"
| "attr (NavigableString s) key = None"
| "attr (Comment s) key = None"

text \<open>The nodes below a node, in document order.\<close>

fun descendants :: "node \<Rightarrow> node list" where
  "descendants (Tag n cs as ch) = concat (map (\<lambda>c. c # descendants c) ch)"
| "descendants (NavigableString s) = []"
| "descendants (Comment s) = []"

text \<open>\<^verbatim>\<open>tag.text\<close>: the strings below the node joined, comments left out.\<close>

fun get_text :: "node \<Rightarrow> string" where
  "get_text (Tag n cs as ch) = concat (map get_text ch)"
| "get_text (NavigableString s) = s"
| "get_text (Comment s) = []"

text \<open>
  \<^verbatim>\<open>tag.find(name, ...)\<close>: the first tag below \<open>t\<close> of that name that passes the
  filter, None when there is none.  \<^verbatim>\<open>tag.h2\<close> is \<^verbatim>\<open>tag.find('h2')\<close>.
\<close>

definition find_tag :: "string \<Rightarrow> (node \<Rightarrow> bool) \<Rightarrow> node \<Rightarrow> node option" where
  "find_tag n P t = List.find (\<lambda>d. tag_name d = Some n \<and> P d) (descendants t)"

text \<open>\<^verbatim>\<open>soup.select('article.Box-row')\<close>: every matching tag, in document order.\<close>

definition select_rows :: "node \<Rightarrow> node list" where
  "select_rows soup =
     filter (\<lambda>d. tag_name d = Some ''article'' \<and> ''Box-row'' \<in> set (classes d)) (descendants soup)"

text \<open>The filter \<^verbatim>\<open>lambda x: x and x.endswith('/stargazers')\<close> on the href of a tag.\<close>

definition stargazers_href :: "node \<Rightarrow> bool" where
  "stargazers_href d =
     (case attr d ''href'' of
        None \<Rightarrow> False
      | Some x \<Rightarrow> x \<noteq> [] \<and> endswith x ''/stargazers'')"

subsection \<open>The environment of a run\<close>

text \<open>
  What the libraries answer during one run.

  \<^item> \<open>robots_txt\<close>: what \<^verbatim>\<open>urllib.request.urlopen\<close> does inside
    \<^verbatim>\<open>rp.read()\<close>: it raises something that is not an HTTPError (the host
    does not resolve, the connection fails), or it raises HTTPError with a status, or it
    returns the content, whose decoding as UTF-8 raises or which is parsed into rules (a
    rule set answers whether a user agent may fetch a URL).
  \<^item> \<open>transport\<close>: the outcome of each HTTP attempt on a URL: a response with its
    status, whether it carries a Retry-After header, and its body; or a failure of the
    connection, timeouts included.
  \<^item> \<open>BeautifulSoup\<close>: the tree the HTML parser builds from a markup, or the text of
    the ParserRejectedMarkup it raises.
  \<^item> \<open>utc_today\<close>: the UTC date as \<^verbatim>\<open>strftime('%Y-%m-%d')\<close> writes it.
  \<^item> \<open>mkdir_fault\<close>, \<open>open_fault\<close>, \<open>dump_fault\<close>: the failures of the file
    system.
  \<^item> \<open>stdout_encodes_markers\<close>: whether the encoding of the console has the status
    markers of the console messages (UTF-8 has them; ASCII, Latin-1 and cp1252 do not).
\<close>

datatype http_outcome = Response nat bool string | ConnectionFailure string

datatype robots_reply =
    UrlopenRaises exn
  | HTTPError nat
  | Content "exn + (string \<Rightarrow> string \<Rightarrow> bool)"

record env =
  robots_txt :: robots_reply
  transport :: "string \<Rightarrow> nat \<Rightarrow> http_outcome"
  BeautifulSoup :: "string \<Rightarrow> string + node"
  utc_today :: string
  mkdir_fault :: "exn option"
  open_fault :: "exn option"
  dump_fault :: "(nat \<times> exn) option"
  stdout_encodes_markers :: bool

subsection \<open>parse_trending\<close>

record repo =
  name :: string
  description :: string
  language :: string
  stars :: string

text \<open>
  The body of the \<^verbatim>\<open>try\<close> of one row, up to the test on the name: the four
  fields, or the AttributeError of \<^verbatim>\<open>repo.h2.a\<close> when the row has no h2.
\<close>

definition row_fields :: "node \<Rightarrow> exn + repo" where
  "row_fields repo =
     (case find_tag ''h2'' (\<lambda>d. True) repo of
        None \<Rightarrow>
          Inl (AttributeError
                ([CHR 0x27] @ ''NoneType'' @ [CHR 0x27] @ '' object has no attribute ''
                   @ [CHR 0x27] @ ''a'' @ [CHR 0x27]))
      | Some h2 \<Rightarrow>
          (let name_element = find_tag ''a'' (\<lambda>d. True) h2;
               name = (case name_element of
                         Some a \<Rightarrow>
                           strip_slash (case attr a ''href'' of Some h \<Rightarrow> h | None \<Rightarrow> [])
                       | None \<Rightarrow> []);
               desc_element = find_tag ''p'' (\<lambda>d. True) repo;
               desc = (case desc_element of Some p \<Rightarrow> strip (get_text p) | None \<Rightarrow> []);
               lang_element =
                 find_tag ''span'' (\<lambda>d. attr d ''itemprop'' = Some ''programmingLanguage'') repo;
               lang = (case lang_element of Some l \<Rightarrow> strip (get_text l) | None \<Rightarrow> []);
               stars_element = find_tag ''a'' stargazers_href repo;
               stars = (case stars_element of
                          Some s \<Rightarrow> remove_commas (strip (get_text s))
                        | None \<Rightarrow> ''0'')
           in Inr \<lparr>name = name, description = desc, language = lang, stars = stars\<rparr>))"

text \<open>
  The \<^verbatim>\<open>for\<close> loop: the rows still to visit and \<^verbatim>\<open>repo_list\<close> so far.
\<close>

fun parse_rows :: "node list \<Rightarrow> repo list \<Rightarrow> world \<Rightarrow> (exn + repo list) \<times> world" where
  "parse_rows [] repo_list w = (Inr repo_list, w)"
| "parse_rows (repo # repositories) repo_list w =
     (case row_fields repo of
        Inr r \<Rightarrow>
          if name r \<noteq> [] then parse_rows repositories (repo_list @ [r]) w
          else parse_rows repositories repo_list w
      | Inl e \<Rightarrow>
          if is_Exception e
          then parse_rows repositories repo_list
                 (logging_warning (''Error parsing repository: '' @ str_exn e) w)
          else (Inl e, w))"

text \<open>
  parse_trending.  The call of the parser stands before the loop and outside its
  \<^verbatim>\<open>try\<close>: when the parser raises, parse_trending raises.
\<close>

definition parse_trending :: "env \<Rightarrow> string \<Rightarrow> world \<Rightarrow> (exn + repo list) \<times> world" where
  "parse_trending env html w =
     (case BeautifulSoup env html of
        Inl m \<Rightarrow> (Inl (ParserRejectedMarkup m), w)
      | Inr soup \<Rightarrow>
          (let repositories = select_rows soup;
               w1 = logging_info (''Found '' @ str_nat (length repositories)
                      @ '' repositories on trending page'') w
           in case parse_rows repositories [] w1 of
                (Inl e, w2) \<Rightarrow> (Inl e, w2)
              | (Inr repo_list, w2) \<Rightarrow>
                  (Inr repo_list,
                   logging_info (''Successfully parsed '' @ str_nat (length repo_list)
                     @ '' repositories'') w2)))"

subsection \<open>can_fetch\<close>



subsection \<open>fetch_trending\<close>





subsection \<open>save_data\<close>

text \<open>
  \<^verbatim>\<open>json.dump(data, f, indent=2, ensure_ascii=False)\<close>: the text written for a
  list of records.
\<close>

definition hex_digit :: "nat \<Rightarrow> char" where
  "hex_digit d = (if d < 10 then char_of (48 + d) else char_of (87 + d))"

definition escape_char :: "char \<Rightarrow> string" where
  "escape_char c =
     (if c = CHR 0x22 then [CHR 0x5C, CHR 0x22]
      else if c = CHR 0x5C then [CHR 0x5C, CHR 0x5C]
      else if c = CHR 0x0A then [CHR 0x5C, CHR ''n'']
      else if c = CHR 0x0D then [CHR 0x5C, CHR ''r'']
      else if c = CHR 0x09 then [CHR 0x5C, CHR ''t'']
      else if c = CHR 0x08 then [CHR 0x5C, CHR ''b'']
      else if c = CHR 0x0C then [CHR 0x5C, CHR ''f'']
      else if (of_char c :: nat) < 32
      then [CHR 0x5C, CHR ''u'', CHR ''0'', CHR ''0'',
            hex_digit (of_char c div 16), hex_digit (of_char c mod 16)]
      else [c])"

definition json_string :: "string \<Rightarrow> string" where
  "json_string s = [CHR 0x22] @ concat (map escape_char s) @ [CHR 0x22]"

definition json_member :: "string \<Rightarrow> string \<Rightarrow> string" where
  "json_member key v = ''    '' @ json_string key @ '': '' @ json_string v"

definition json_object :: "repo \<Rightarrow> string" where
  "json_object r =
     ''{'' @ [CHR 0x0A] @ json_member ''name'' (name r) @ '','' @ [CHR 0x0A]
       @ json_member ''description'' (description r) @ '','' @ [CHR 0x0A]
       @ json_member ''language'' (language r) @ '','' @ [CHR 0x0A]
       @ json_member ''stars'' (stars r) @ [CHR 0x0A] @ ''  }''"

fun join :: "string \<Rightarrow> string list \<Rightarrow> string" where
  "join sep [] = []"
| "join sep [x] = x"
| "join sep (x # y # ys) = x @ sep @ join sep (y # ys)"

definition json_dumps :: "repo list \<Rightarrow> string" where
  "json_dumps data =
     (if data = [] then ''[]''
      else ''['' @ [CHR 0x0A] @ ''  ''
             @ join ('','' @ [CHR 0x0A] @ ''  '') (map json_object data)
             @ [CHR 0x0A] @ '']'')"

text \<open>\<^verbatim>\<open>os.path.join(a, b)\<close> and \<^verbatim>\<open>os.path.exists(p)\<close>.\<close>

definition path_join :: "string \<Rightarrow> string \<Rightarrow> string" where
  "path_join a b =
     (if b \<noteq> [] \<and> hd b = CHR ''/'' then b
      else if a = [] \<or> last a = CHR ''/'' then a @ b
      else a @ ''/'' @ b)"

definition path_exists :: "world \<Rightarrow> string \<Rightarrow> bool" where
  "path_exists w p = (files w p \<noteq> None \<or> p \<in> dirs w)"

text \<open>The directories on the way to a path, the path itself last.\<close>

fun dir_chain :: "string \<Rightarrow> string \<Rightarrow> string list" where
  "dir_chain pre [] = [pre]"
| "dir_chain pre (c # cs) =
     (if c = CHR ''/'' \<and> pre \<noteq> [] then pre # dir_chain (pre @ [c]) cs
      else dir_chain (pre @ [c]) cs)"

text \<open>
  \<^verbatim>\<open>os.makedirs(p, exist_ok=True)\<close>: nothing to do when the directory exists;
  otherwise it raises the environment's failure, or an OSError when a file stands where
  a directory is needed, or creates the directories.
\<close>

definition makedirs :: "env \<Rightarrow> string \<Rightarrow> world \<Rightarrow> (exn + unit) \<times> world" where
  "makedirs env p w =
     (if p \<in> dirs w then (Inr (), w)
      else case mkdir_fault env of
             Some e \<Rightarrow> (Inl e, w)
           | None \<Rightarrow>
               if list_ex (\<lambda>q. files w q \<noteq> None) (dir_chain [] p)
               then (Inl (OSError (''[Errno 17] File exists: '' @ p)), w)
               else (Inr (), w\<lparr>dirs := dirs w \<union> set (dir_chain [] p)\<rparr>))"

text \<open>
  The \<^verbatim>\<open>with open(file_path, 'w', encoding='utf-8') as f: json.dump(...)\<close>
  block.  Opening creates the file empty; a failure of the dump after \<open>n\<close> bytes leaves
  the first \<open>n\<close> bytes of the text in the file.
\<close>

definition write_json :: "env \<Rightarrow> string \<Rightarrow> repo list \<Rightarrow> world \<Rightarrow> (exn + unit) \<times> world" where
  "write_json env file_path data w =
     (case open_fault env of
        Some e \<Rightarrow> (Inl e, w)
      | None \<Rightarrow>
          (case dump_fault env of
             Some (n, e) \<Rightarrow>
               (Inl e, w\<lparr>files := (files w)(file_path \<mapsto> take n (json_dumps data))\<rparr>)
           | None \<Rightarrow> (Inr (), w\<lparr>files := (files w)(file_path \<mapsto> json_dumps data)\<rparr>)))"

definition dir_path_of :: "env \<Rightarrow> string" where
  "dir_path_of env = path_join ''data'' (utc_today env)"

definition file_path_of :: "env \<Rightarrow> string" where
  "file_path_of env = path_join (dir_path_of env) ''trending.json''"

definition save_data :: "env \<Rightarrow> repo list \<Rightarrow> world \<Rightarrow> (exn + bool) \<times> world" where
  "save_data env data w =
     (let today = utc_today env;
          dir_path = path_join ''data'' today
      in case makedirs env dir_path w of
           (Inl e, w1) \<Rightarrow> (Inl e, w1)
         | (Inr u, w1) \<Rightarrow>
             (let file_path = path_join dir_path ''trending.json''
              in if path_exists w1 file_path
                 then (Inr False,
                       py_print (''File '' @ file_path @ '' already exists. Skipping save.'')
                         (logging_info
                            (''File '' @ file_path @ '' already exists. Skipping save.'') w1))
                 else case write_json env file_path data w1 of
                        (Inr u, w2) \<Rightarrow>
                          (Inr True,
                           py_print (''Successfully saved '' @ str_nat (length data)
                               @ '' repositories to '' @ file_path)
                             (logging_info (''Successfully saved '' @ str_nat (length data)
                                @ '' repositories to '' @ file_path) w2))
                      | (Inl e, w2) \<Rightarrow>
                          if is_Exception e
                          then (Inr False,
                                py_print (''Error saving data: '' @ str_exn e)
                                  (logging_error (''Error saving data to '' @ file_path
                                     @ '': '' @ str_exn e) w2))
                          else (Inl e, w2)))"

subsection \<open>main\<close>








subsection \<open>The sample page of test_scraper.py\<close>

text \<open>
  The tree of \<^verbatim>\<open>SAMPLE_HTML\<close>: three rows in html and body, the third with no
  language tag, with the line breaks and indentation of the source between the tags.
\<close>

definition sample_row ::
  "string \<Rightarrow> string \<Rightarrow> string option \<Rightarrow> string \<Rightarrow> node" where
  "sample_row full desc lang count =
     Tag ''article'' [''Box-row''] []
       ([NavigableString (CHR 0x0A # ''  ''),
         Tag ''h2'' [] [] [Tag ''a'' [] [(''href'', ''/'' @ full)] [NavigableString full]],
         NavigableString (CHR 0x0A # ''  ''),
         Tag ''p'' [] [] [NavigableString desc],
         NavigableString (CHR 0x0A # ''  '')]
        @ (case lang of
             None \<Rightarrow> []
           | Some l \<Rightarrow>
               [Tag ''span'' [] [(''itemprop'', ''programmingLanguage'')] [NavigableString l],
                NavigableString (CHR 0x0A # ''  '')])
        @ [Tag ''a'' [] [(''href'', ''/'' @ full @ ''/stargazers'')] [NavigableString count],
           NavigableString [CHR 0x0A]])"

definition SAMPLE_SOUP :: node where
  "SAMPLE_SOUP =
     Tag ''[document]'' [] []
       [NavigableString [CHR 0x0A],
        Tag ''html'' [] []
          [Tag ''body'' [] []
             [NavigableString [CHR 0x0A],
              sample_row ''torvalds/linux'' ''Linux kernel source tree'' (Some ''C'') ''160,000'',
              NavigableString [CHR 0x0A],
              sample_row ''microsoft/vscode'' ''Visual Studio Code'' (Some ''TypeScript'')
                ''120,000'',
              NavigableString [CHR 0x0A],
              sample_row ''example/no-language'' ''Repository with no language specified'' None
                ''1,234'',
              NavigableString [CHR 0x0A]]],
        NavigableString [CHR 0x0A]]"

subsection \<open>The other pages of test_scraper.py\<close>



text \<open>The page of \<^verbatim>\<open>test_parse_trending_empty_html\<close>.\<close>

definition EMPTY_SOUP :: node where
  "EMPTY_SOUP = Tag ''[document]'' [] [] [Tag ''html'' [] [] [Tag ''body'' [] [] []]]"

text \<open>
  A page of four rows: the second has no h2, the third a heading link to the root path,
  and the other two are rows of the sample page.
\<close>

definition HEADLESS_ROW :: node where
  "HEADLESS_ROW =
     Tag ''article'' [''Box-row''] []
       [Tag ''p'' [] [] [NavigableString ''No heading here'']]"

definition NAMELESS_ROW :: node where
  "NAMELESS_ROW =
     Tag ''article'' [''Box-row''] []
       [Tag ''h2'' [] [] [Tag ''a'' [] [(''href'', ''/'')] [NavigableString ''home'']],
        Tag ''p'' [] [] [NavigableString ''A link to the root'']]"

definition MIXED_SOUP :: node where
  "MIXED_SOUP =
     Tag ''[document]'' [] []
       [Tag ''html'' [] []
          [Tag ''body'' [] []
             [sample_row ''torvalds/linux'' ''Linux kernel source tree'' (Some ''C'') ''160,000'',
              HEADLESS_ROW,
              NAMELESS_ROW,
              sample_row ''microsoft/vscode'' ''Visual Studio Code'' (Some ''TypeScript'')
                ''120,000'']]]"

subsection \<open>Notions the properties are stated with\<close>

text \<open>What one row adds to \<^verbatim>\<open>repo_list\<close>: its record when the name is not empty.\<close>

definition emitted :: "node \<Rightarrow> repo option" where
  "emitted repo =
     (case row_fields repo of
        Inl e \<Rightarrow> None
      | Inr r \<Rightarrow> if name r \<noteq> [] then Some r else None)"

text \<open>The warnings the rows that raise leave in the log.\<close>

definition row_warnings :: "node list \<Rightarrow> (level \<times> string) list" where
  "row_warnings rows =
     concat (map (\<lambda>repo. case row_fields repo of
                            Inl e \<Rightarrow> [(WARNING, ''Error parsing repository: '' @ str_exn e)]
                          | Inr r \<Rightarrow> []) rows)"



subsection \<open>Concrete runs\<close>

definition fresh_world :: world where
  "fresh_world = \<lparr>logged = [], printed = [], requested = [], files = Map.empty, dirs = {}\<rparr>"

text \<open>A run in which everything answers: the sample page on the first attempt.\<close>

definition sample_env :: env where
  "sample_env =
     \<lparr>robots_txt = Content (Inr (\<lambda>user_agent url. True)),
      transport = (\<lambda>url i. Response 200 False ''<html>sample</html>''),
      BeautifulSoup = (\<lambda>html. Inr SAMPLE_SOUP),
      utc_today = ''2024-01-15'',
      mkdir_fault = None, open_fault = None, dump_fault = None,
      stdout_encodes_markers = True\<rparr>"


definition empty_env :: env where
  "empty_env = sample_env\<lparr>BeautifulSoup := (\<lambda>html. Inr EMPTY_SOUP)\<rparr>"

definition mixed_env :: env where
  "mixed_env = sample_env\<lparr>BeautifulSoup := (\<lambda>html. Inr MIXED_SOUP)\<rparr>"






text \<open>A run in which the disk is full after ten bytes of the dump.\<close>

definition disk_full_env :: env where
  "disk_full_env =
     sample_env\<lparr>dump_fault := Some (10, OSError ''[Errno 28] No space left on device'')\<rparr>"

text \<open>A run in which the file cannot be opened for writing.\<close>

definition read_only_env :: env where
  "read_only_env =
     sample_env\<lparr>open_fault :=
       Some (OSError ''[Errno 30] Read-only file system: data/2024-01-15/trending.json'')\<rparr>"

definition linux_record :: repo where
  "linux_record =
     \<lparr>name = ''torvalds/linux'', description = ''Linux kernel source tree'',
      language = ''C'', stars = ''160000''\<rparr>"

definition vscode_record :: repo where
  "vscode_record =
     \<lparr>name = ''microsoft/vscode'', description = ''Visual Studio Code'',
      language = ''TypeScript'', stars = ''120000''\<rparr>"



text \<open>
  A run in which the parser gives up on the markup: html.parser stops at the marked
  section of \<^verbatim>\<open><![foo[ bar ]]>\<close>.
\<close>

definition rejecting_env :: env where
  "rejecting_env =
     sample_env\<lparr>BeautifulSoup :=
       (\<lambda>html. if html = ''<![foo[ bar ]]>''
                then Inl ''unknown status keyword foo in marked section''
                else Inr EMPTY_SOUP)\<rparr>"







section \<open>Properties\<close>

subsection \<open>The extractor\<close>

lemma row_fields_raises: "row_fields repo = Inl e \<Longrightarrow> is_Exception e"
  by (auto simp: row_fields_def Let_def split: option.splits)

lemma parse_rows_result:
  "parse_rows rows repo_list w =
     (Inr (repo_list @ List.map_filter emitted rows),
      w\<lparr>logged := logged w @ row_warnings rows\<rparr>)"
proof (induction rows arbitrary: repo_list w)
  case Nil
  then show ?case by (simp add: map_filter_simps row_warnings_def)
next
  case (Cons repo rows)
  show ?case
  proof (cases "row_fields repo")
    case (Inl e)
    then have "is_Exception e" by (rule row_fields_raises)
    with Inl Cons show ?thesis
      by (simp add: map_filter_simps emitted_def row_warnings_def logging_warning_def)
  next
    case (Inr r)
    with Cons show ?thesis
      by (simp add: map_filter_simps emitted_def row_warnings_def)
  qed
qed

lemma parse_trending_fst:
  "BeautifulSoup env html = Inr soup \<Longrightarrow>
     fst (parse_trending env html w) = Inr (List.map_filter emitted (select_rows soup))"
  by (simp add: parse_trending_def Let_def parse_rows_result)

lemma parse_trending_rejected:
  "BeautifulSoup env html = Inl m \<Longrightarrow>
     parse_trending env html w = (Inl (ParserRejectedMarkup m), w)"
  by (simp add: parse_trending_def)


lemma parse_trending_logged:
  "BeautifulSoup env html = Inr soup \<Longrightarrow>
   logged (snd (parse_trending env html w)) =
     logged w
     @ [(INFO, ''Found '' @ str_nat (length (select_rows soup))
           @ '' repositories on trending page'')]
     @ row_warnings (select_rows soup)
     @ [(INFO, ''Successfully parsed ''
           @ str_nat (length (List.map_filter emitted (select_rows soup)))
           @ '' repositories'')]"
  by (simp add: parse_trending_def Let_def parse_rows_result logging_info_def)

lemma parse_trending_frame:
  "files (snd (parse_trending env html w)) = files w"
  "dirs (snd (parse_trending env html w)) = dirs w"
  "requested (snd (parse_trending env html w)) = requested w"
  "printed (snd (parse_trending env html w)) = printed w"
  by (simp_all add: parse_trending_def Let_def parse_rows_result logging_info_def
      split: sum.splits)

lemma emitted_name: "emitted repo = Some r \<Longrightarrow> name r \<noteq> []"
  by (auto simp: emitted_def split: sum.splits if_splits)

lemma map_filter_length: "length (List.map_filter f xs) \<le> length xs"
  by (induction xs) (auto simp: map_filter_simps split: option.splits)

lemma map_filter_set: "y \<in> set (List.map_filter f xs) \<longleftrightarrow> (\<exists>x \<in> set xs. f x = Some y)"
  by (induction xs) (auto simp: map_filter_simps split: option.splits)

lemma map_filter_append:
  "List.map_filter f (xs @ ys) = List.map_filter f xs @ List.map_filter f ys"
  by (simp add: List.map_filter_def)

lemma mixed_rows:
  "select_rows MIXED_SOUP =
     [sample_row ''torvalds/linux'' ''Linux kernel source tree'' (Some ''C'') ''160,000'',
      HEADLESS_ROW, NAMELESS_ROW,
      sample_row ''microsoft/vscode'' ''Visual Studio Code'' (Some ''TypeScript'') ''120,000'']"
  by code_simp

lemma mixed_emitted:
  "List.map_filter emitted (select_rows MIXED_SOUP) =
     [\<lparr>name = ''torvalds/linux'', description = ''Linux kernel source tree'',
        language = ''C'', stars = ''160000''\<rparr>,
      \<lparr>name = ''microsoft/vscode'', description = ''Visual Studio Code'',
        language = ''TypeScript'', stars = ''120000''\<rparr>]"
  by code_simp

lemma headless_row_raises:
  "row_fields HEADLESS_ROW =
     Inl (AttributeError ([CHR 0x27] @ ''NoneType'' @ [CHR 0x27] @ '' object has no attribute ''
            @ [CHR 0x27] @ ''a'' @ [CHR 0x27]))"
  by code_simp

lemma nameless_row_fields:
  "row_fields NAMELESS_ROW =
     Inr \<lparr>name = [], description = ''A link to the root'', language = [], stars = ''0''\<rparr>"
  by code_simp

text \<open>
  C1.  Whatever page the parser builds from the markup, parse_trending returns a list;
  every record in it has a name that is not empty; a row whose name does not resolve to a
  non-empty string adds no record; and so the list is no longer than the list of rows of
  the page.
\<close>

theorem parse_trending_names_nonempty:
  assumes "BeautifulSoup env html = Inr soup"
  shows "\<exists>rs. fst (parse_trending env html w) = Inr rs
     \<and> rs = List.map_filter emitted (select_rows soup)
     \<and> (\<forall>r \<in> set rs. name r \<noteq> [])
     \<and> (\<forall>repo. (\<forall>r. row_fields repo = Inr r \<longrightarrow> name r = []) \<longrightarrow> emitted repo = None)
     \<and> length rs \<le> length (select_rows soup)"
proof -
  let ?rows = "select_rows soup"
  let ?rs = "List.map_filter emitted ?rows"
  have "fst (parse_trending env html w) = Inr ?rs" using assms by (rule parse_trending_fst)
  moreover have "\<forall>r \<in> set ?rs. name r \<noteq> []"
    by (auto simp: map_filter_set dest: emitted_name)
  moreover have "\<forall>repo. (\<forall>r. row_fields repo = Inr r \<longrightarrow> name r = []) \<longrightarrow> emitted repo = None"
    by (auto simp: emitted_def split: sum.splits)
  moreover have "length ?rs \<le> length ?rows" by (rule map_filter_length)
  ultimately show ?thesis by blast
qed

text \<open>
  On the page of four rows, the row with no h2 and the row whose link is the root path
  add nothing, and the two other rows give the two records.
\<close>

theorem parse_trending_names_nonempty_witness:
  "BeautifulSoup mixed_env ''<html>'' = Inr MIXED_SOUP
   \<and> length (select_rows MIXED_SOUP) = 4
   \<and> fst (parse_trending mixed_env ''<html>'' fresh_world)
       = Inr [\<lparr>name = ''torvalds/linux'', description = ''Linux kernel source tree'',
                language = ''C'', stars = ''160000''\<rparr>,
              \<lparr>name = ''microsoft/vscode'', description = ''Visual Studio Code'',
                language = ''TypeScript'', stars = ''120000''\<rparr>]
   \<and> emitted HEADLESS_ROW = None \<and> emitted NAMELESS_ROW = None"
proof -
  have env: "BeautifulSoup mixed_env ''<html>'' = Inr MIXED_SOUP"
    by (simp add: mixed_env_def sample_env_def)
  from parse_trending_names_nonempty [OF env, of fresh_world]
  obtain rs where rs: "fst (parse_trending mixed_env ''<html>'' fresh_world) = Inr rs"
    "rs = List.map_filter emitted (select_rows MIXED_SOUP)"
    and absent: "\<forall>repo. (\<forall>r. row_fields repo = Inr r \<longrightarrow> name r = []) \<longrightarrow> emitted repo = None"
    by blast
  from absent headless_row_raises have "emitted HEADLESS_ROW = None" by simp
  moreover from absent nameless_row_fields have "emitted NAMELESS_ROW = None" by simp
  moreover have "length (select_rows MIXED_SOUP) = 4" by (simp add: mixed_rows)
  ultimately show ?thesis using rs env by (simp add: mixed_emitted)
qed









lemma empty_rows: "select_rows EMPTY_SOUP = []"
  by code_simp

text \<open>
  C4, as amended.  On every markup from which the parser builds a page, parse_trending
  returns a list: a page with no row gives the empty list, and a row whose processing
  raises adds no record and leaves a warning in the log, while the rows before and after
  it are processed as they are without it.  When the parser rejects the markup, its
  exception leaves parse_trending.
\<close>

theorem parse_trending_total:
  "(\<forall>soup. BeautifulSoup env html = Inr soup \<longrightarrow>
       (\<exists>rs. fst (parse_trending env html w) = Inr rs)
       \<and> (select_rows soup = [] \<longrightarrow> fst (parse_trending env html w) = Inr [])
       \<and> (\<forall>before bad after e.
             select_rows soup = before @ bad # after \<and> row_fields bad = Inl e \<longrightarrow>
               fst (parse_trending env html w)
                 = Inr (List.map_filter emitted before @ List.map_filter emitted after)
               \<and> (WARNING, ''Error parsing repository: '' @ str_exn e)
                   \<in> set (logged (snd (parse_trending env html w)))))
   \<and> (\<forall>m. BeautifulSoup env html = Inl m \<longrightarrow>
         fst (parse_trending env html w) = Inl (ParserRejectedMarkup m))"
proof (intro conjI allI impI)
  fix soup
  assume "BeautifulSoup env html = Inr soup"
  then show "\<exists>rs. fst (parse_trending env html w) = Inr rs"
    by (simp add: parse_trending_fst)
next
  fix soup
  assume "BeautifulSoup env html = Inr soup" and "select_rows soup = []"
  then show "fst (parse_trending env html w) = Inr []"
    by (simp add: parse_trending_fst map_filter_simps)
next
  fix soup before bad after e
  assume soup: "BeautifulSoup env html = Inr soup"
    and a: "select_rows soup = before @ bad # after \<and> row_fields bad = Inl e"
  then have "emitted bad = None" by (simp add: emitted_def)
  with soup a show "fst (parse_trending env html w)
      = Inr (List.map_filter emitted before @ List.map_filter emitted after)"
    by (simp add: parse_trending_fst map_filter_append map_filter_simps)
  from soup a show "(WARNING, ''Error parsing repository: '' @ str_exn e)
      \<in> set (logged (snd (parse_trending env html w)))"
    by (simp add: parse_trending_logged row_warnings_def)
next
  fix m
  assume "BeautifulSoup env html = Inl m"
  then show "fst (parse_trending env html w) = Inl (ParserRejectedMarkup m)"
    by (simp add: parse_trending_rejected)
qed

text \<open>
  The empty page gives the empty list; on the page of four rows the second raises
  AttributeError, the rows around it give their records, and the warning is logged; and
  the markup the parser rejects makes parse_trending raise.
\<close>

theorem parse_trending_total_witness:
  "BeautifulSoup empty_env ''<html><body></body></html>'' = Inr EMPTY_SOUP
   \<and> select_rows EMPTY_SOUP = []
   \<and> fst (parse_trending empty_env ''<html><body></body></html>'' fresh_world) = Inr []
   \<and> BeautifulSoup mixed_env ''<html>'' = Inr MIXED_SOUP
   \<and> row_fields HEADLESS_ROW
       = Inl (AttributeError ([CHR 0x27] @ ''NoneType'' @ [CHR 0x27] @ '' object has no attribute ''
            @ [CHR 0x27] @ ''a'' @ [CHR 0x27]))
   \<and> fst (parse_trending mixed_env ''<html>'' fresh_world)
       = Inr [\<lparr>name = ''torvalds/linux'', description = ''Linux kernel source tree'',
                language = ''C'', stars = ''160000''\<rparr>,
              \<lparr>name = ''microsoft/vscode'', description = ''Visual Studio Code'',
                language = ''TypeScript'', stars = ''120000''\<rparr>]
   \<and> (WARNING, ''Error parsing repository: '' @ [CHR 0x27] @ ''NoneType'' @ [CHR 0x27]
          @ '' object has no attribute '' @ [CHR 0x27] @ ''a'' @ [CHR 0x27])
       \<in> set (logged (snd (parse_trending mixed_env ''<html>'' fresh_world)))
   \<and> BeautifulSoup rejecting_env ''<![foo[ bar ]]>''
       = Inl ''unknown status keyword foo in marked section''
   \<and> fst (parse_trending rejecting_env ''<![foo[ bar ]]>'' fresh_world)
       = Inl (ParserRejectedMarkup ''unknown status keyword foo in marked section'')"
proof -
  have e_env: "BeautifulSoup empty_env ''<html><body></body></html>'' = Inr EMPTY_SOUP"
    by (simp add: empty_env_def sample_env_def)
  have m_env: "BeautifulSoup mixed_env ''<html>'' = Inr MIXED_SOUP"
    by (simp add: mixed_env_def sample_env_def)
  have r_env: "BeautifulSoup rejecting_env ''<![foo[ bar ]]>''
      = Inl ''unknown status keyword foo in marked section''"
    by (simp add: rejecting_env_def)
  let ?first = "sample_row ''torvalds/linux'' ''Linux kernel source tree'' (Some ''C'') ''160,000''"
  let ?last = "sample_row ''microsoft/vscode'' ''Visual Studio Code'' (Some ''TypeScript'') ''120,000''"
  have split: "select_rows MIXED_SOUP = [?first] @ HEADLESS_ROW # [NAMELESS_ROW, ?last]"
    by (simp add: mixed_rows)
  have parts: "List.map_filter emitted [?first] @ List.map_filter emitted [NAMELESS_ROW, ?last]
      = [\<lparr>name = ''torvalds/linux'', description = ''Linux kernel source tree'',
                language = ''C'', stars = ''160000''\<rparr>,
              \<lparr>name = ''microsoft/vscode'', description = ''Visual Studio Code'',
                language = ''TypeScript'', stars = ''120000''\<rparr>]"
    by code_simp
  from parse_trending_total [of empty_env "''<html><body></body></html>''" fresh_world]
    e_env empty_rows
  have empty: "fst (parse_trending empty_env ''<html><body></body></html>'' fresh_world) = Inr []"
    by blast
  from parse_trending_total [of mixed_env "''<html>''" fresh_world] m_env split
    headless_row_raises
  have "fst (parse_trending mixed_env ''<html>'' fresh_world)
          = Inr (List.map_filter emitted [?first] @ List.map_filter emitted [NAMELESS_ROW, ?last])
        \<and> (WARNING, ''Error parsing repository: '' @ str_exn (AttributeError ([CHR 0x27] @ ''NoneType'' @ [CHR 0x27] @ '' object has no attribute ''
            @ [CHR 0x27] @ ''a'' @ [CHR 0x27])))
            \<in> set (logged (snd (parse_trending mixed_env ''<html>'' fresh_world)))"
    by blast
  then have mixed: "fst (parse_trending mixed_env ''<html>'' fresh_world)
          = Inr [\<lparr>name = ''torvalds/linux'', description = ''Linux kernel source tree'',
                language = ''C'', stars = ''160000''\<rparr>,
              \<lparr>name = ''microsoft/vscode'', description = ''Visual Studio Code'',
                language = ''TypeScript'', stars = ''120000''\<rparr>]
        \<and> (WARNING, ''Error parsing repository: '' @ [CHR 0x27] @ ''NoneType'' @ [CHR 0x27]
          @ '' object has no attribute '' @ [CHR 0x27] @ ''a'' @ [CHR 0x27])
            \<in> set (logged (snd (parse_trending mixed_env ''<html>'' fresh_world)))"
    unfolding parts str_exn.simps .
  from parse_trending_total [of rejecting_env "''<![foo[ bar ]]>''" fresh_world] r_env
  have rejected: "fst (parse_trending rejecting_env ''<![foo[ bar ]]>'' fresh_world)
      = Inl (ParserRejectedMarkup ''unknown status keyword foo in marked section'')"
    by blast
  from empty mixed rejected e_env m_env r_env empty_rows headless_row_raises
  show ?thesis by blast
qed

text \<open>
  C4 as stated has parse_trending return on every markup.  On
  \<^verbatim>\<open><![foo[ bar ]]>\<close> the parser raises before the loop over the rows is reached,
  and parse_trending raises with it.
\<close>

theorem parse_trending_rejected_markup_counterexample:
  "BeautifulSoup rejecting_env ''<![foo[ bar ]]>''
     = Inl ''unknown status keyword foo in marked section''
   \<and> fst (parse_trending rejecting_env ''<![foo[ bar ]]>'' fresh_world)
       = Inl (ParserRejectedMarkup ''unknown status keyword foo in marked section'')
   \<and> \<not> (\<exists>rs. fst (parse_trending rejecting_env ''<![foo[ bar ]]>'' fresh_world) = Inr rs)"
  by (simp add: parse_trending_def rejecting_env_def)

lemma sample_rows:
  "select_rows SAMPLE_SOUP =
     [sample_row ''torvalds/linux'' ''Linux kernel source tree'' (Some ''C'') ''160,000'',
      sample_row ''microsoft/vscode'' ''Visual Studio Code'' (Some ''TypeScript'') ''120,000'',
      sample_row ''example/no-language'' ''Repository with no language specified'' None ''1,234'']"
  by code_simp

lemma sample_emitted:
  "List.map_filter emitted (select_rows SAMPLE_SOUP) =
     [\<lparr>name = ''torvalds/linux'', description = ''Linux kernel source tree'',
        language = ''C'', stars = ''160000''\<rparr>,
      \<lparr>name = ''microsoft/vscode'', description = ''Visual Studio Code'',
        language = ''TypeScript'', stars = ''120000''\<rparr>,
      \<lparr>name = ''example/no-language'', description = ''Repository with no language specified'',
        language = [], stars = ''1234''\<rparr>]"
  by code_simp

text \<open>
  C9.  On the page the parser builds, the output lists the records of the rows in the
  order of the rows in the document;
  on the sample page of three rows (stars "160,000" and "120,000", and a third row with
  no language tag and stars "1,234") it is exactly the three records in that order, the
  third with an empty language and stars "1234".
\<close>

theorem parse_trending_document_order:
  assumes "BeautifulSoup env html = Inr soup"
  shows "fst (parse_trending env html w) = Inr (List.map_filter emitted (select_rows soup))
   \<and> (soup = SAMPLE_SOUP \<longrightarrow>
        fst (parse_trending env html w)
          = Inr [\<lparr>name = ''torvalds/linux'', description = ''Linux kernel source tree'',
                   language = ''C'', stars = ''160000''\<rparr>,
                 \<lparr>name = ''microsoft/vscode'', description = ''Visual Studio Code'',
                   language = ''TypeScript'', stars = ''120000''\<rparr>,
                 \<lparr>name = ''example/no-language'',
                   description = ''Repository with no language specified'',
                   language = [], stars = ''1234''\<rparr>])"
  using assms by (auto simp: parse_trending_fst sample_emitted)

text \<open>
  The run whose parser builds the sample page.
\<close>

theorem parse_trending_document_order_witness:
  "BeautifulSoup sample_env ''<html>sample</html>'' = Inr SAMPLE_SOUP
   \<and> fst (parse_trending sample_env ''<html>sample</html>'' fresh_world)
       = Inr [\<lparr>name = ''torvalds/linux'', description = ''Linux kernel source tree'',
                language = ''C'', stars = ''160000''\<rparr>,
              \<lparr>name = ''microsoft/vscode'', description = ''Visual Studio Code'',
                language = ''TypeScript'', stars = ''120000''\<rparr>,
              \<lparr>name = ''example/no-language'',
                description = ''Repository with no language specified'',
                language = [], stars = ''1234''\<rparr>]"
proof -
  have env: "BeautifulSoup sample_env ''<html>sample</html>'' = Inr SAMPLE_SOUP"
    by (simp add: sample_env_def)
  from parse_trending_document_order [OF env, of fresh_world] env
  show ?thesis by blast
qed

subsection \<open>The policy check\<close>







subsection \<open>The fetcher\<close>











subsection \<open>The snapshot store\<close>

lemma dir_chain_self: "pre @ s \<in> set (dir_chain pre s)"
proof (induction s arbitrary: pre)
  case Nil
  then show ?case by simp
next
  case (Cons c cs)
  from Cons [of "pre @ [c]"] show ?case by auto
qed

lemma dir_chain_length: "q \<in> set (dir_chain pre s) \<Longrightarrow> length q \<le> length pre + length s"
  by (induction s arbitrary: pre) (fastforce split: if_splits)+

lemma file_path_longer: "length (dir_path_of env) < length (file_path_of env)"
  by (simp add: file_path_of_def path_join_def)

lemma makedirs_existing: "p \<in> dirs w \<Longrightarrow> makedirs env p w = (Inr (), w)"
  by (simp add: makedirs_def)

lemma makedirs_returns:
  assumes "makedirs env p w = (Inr u, w1)"
  shows "p \<in> dirs w1" and "files w1 = files w" and "logged w1 = logged w"
    and "printed w1 = printed w" and "requested w1 = requested w"
    and "dirs w1 = dirs w \<or> dirs w1 = dirs w \<union> set (dir_chain [] p)"
  using assms dir_chain_self [of "[]" p]
  by (auto simp: makedirs_def split: if_splits option.splits)


lemma makedirs_fresh:
  assumes "mkdir_fault env = None" and "\<not> list_ex (\<lambda>q. files w q \<noteq> None) (dir_chain [] p)"
  shows "fst (makedirs env p w) = Inr ()"
  using assms by (simp add: makedirs_def)

lemma save_data_unfold:
  assumes "makedirs env (dir_path_of env) w = (Inr (), w1)"
  shows "save_data env data w =
     (if path_exists w1 (file_path_of env)
      then (Inr False,
            py_print (''File '' @ file_path_of env @ '' already exists. Skipping save.'')
              (logging_info (''File '' @ file_path_of env @ '' already exists. Skipping save.'') w1))
      else case write_json env (file_path_of env) data w1 of
             (Inr u, w2) \<Rightarrow>
               (Inr True,
                py_print (''Successfully saved '' @ str_nat (length data)
                    @ '' repositories to '' @ file_path_of env)
                  (logging_info (''Successfully saved '' @ str_nat (length data)
                     @ '' repositories to '' @ file_path_of env) w2))
           | (Inl e, w2) \<Rightarrow>
               if is_Exception e
               then (Inr False,
                     py_print (''Error saving data: '' @ str_exn e)
                       (logging_error (''Error saving data to '' @ file_path_of env
                          @ '': '' @ str_exn e) w2))
               else (Inl e, w2))"
  using assms unfolding save_data_def Let_def dir_path_of_def file_path_of_def by simp

lemma save_data_skips:
  assumes "dir_path_of env \<in> dirs w" and "path_exists w (file_path_of env)"
  shows "fst (save_data env data w) = Inr False"
    and "files (snd (save_data env data w)) = files w"
    and "dirs (snd (save_data env data w)) = dirs w"
    and "requested (snd (save_data env data w)) = requested w"
  using assms
  by (simp_all add: save_data_unfold [OF makedirs_existing] py_print_def logging_info_def)

lemma save_data_wrote:
  assumes "save_data env data w = (Inr True, w1)"
  shows "dir_path_of env \<in> dirs w1"
    and "files w1 (file_path_of env) = Some (json_dumps data)"
    and "\<forall>p. p \<noteq> file_path_of env \<longrightarrow> files w1 p = files w p"
proof -
  obtain r w0 where m: "makedirs env (dir_path_of env) w = (r, w0)"
    by (cases "makedirs env (dir_path_of env) w") auto
  from assms m obtain u where r: "r = Inr u"
    by (cases r) (auto simp: save_data_def Let_def dir_path_of_def)
  then have m': "makedirs env (dir_path_of env) w = (Inr (), w0)" using m by simp
  from assms have w1: "\<not> path_exists w0 (file_path_of env)
      \<and> open_fault env = None \<and> dump_fault env = None
      \<and> w1 = py_print (''Successfully saved '' @ str_nat (length data)
                    @ '' repositories to '' @ file_path_of env)
                  (logging_info (''Successfully saved '' @ str_nat (length data)
                     @ '' repositories to '' @ file_path_of env)
                     (w0\<lparr>files := (files w0)(file_path_of env \<mapsto> json_dumps data)\<rparr>))"
    unfolding save_data_unfold [OF m']
    by (auto simp: write_json_def split: if_splits option.splits prod.splits sum.splits)
  from makedirs_returns(1,2) [OF m'] w1
  show "dir_path_of env \<in> dirs w1" "files w1 (file_path_of env) = Some (json_dumps data)"
    "\<forall>p. p \<noteq> file_path_of env \<longrightarrow> files w1 p = files w p"
    by (simp_all add: py_print_def logging_info_def)
qed

lemma same_paths:
  "utc_today env2 = utc_today env1 \<Longrightarrow>
     dir_path_of env2 = dir_path_of env1 \<and> file_path_of env2 = file_path_of env1"
  by (simp add: dir_path_of_def file_path_of_def)

lemma file_path_not_in_chain: "file_path_of env \<notin> set (dir_chain [] (dir_path_of env))"
proof
  assume "file_path_of env \<in> set (dir_chain [] (dir_path_of env))"
  then have "length (file_path_of env) \<le> length (dir_path_of env)"
    by (auto dest: dir_chain_length)
  with file_path_longer [of env] show False by simp
qed

lemma save_data_first_write:
  assumes "mkdir_fault env = None" and "open_fault env = None" and "dump_fault env = None"
    and "\<not> list_ex (\<lambda>q. files w q \<noteq> None) (dir_chain [] (dir_path_of env))"
    and "\<not> path_exists w (file_path_of env)"
  shows "fst (save_data env data w) = Inr True"
proof -
  obtain r w0 where m: "makedirs env (dir_path_of env) w = (r, w0)"
    by (cases "makedirs env (dir_path_of env) w") auto
  with makedirs_fresh [OF assms(1,4)] have m': "makedirs env (dir_path_of env) w = (Inr (), w0)"
    by simp
  from makedirs_returns(2,6) [OF m'] assms(5) file_path_not_in_chain [of env]
  have "\<not> path_exists w0 (file_path_of env)"
    by (auto simp: path_exists_def)
  with assms(2,3) show ?thesis
    by (simp add: save_data_unfold [OF m'] write_json_def)
qed

text \<open>
  C2.  Two calls of save_data on the same UTC date, with any data in each.  When no
  artifact exists for the date and nothing fails, the first call writes it and returns
  True; and whenever the first call has written the artifact, the second call, whatever
  its data and whatever would fail in it, returns False and leaves every file and
  directory as the first call left them, the artifact holding the dump of the first
  call's data.
\<close>

theorem save_data_twice:
  assumes "utc_today env2 = utc_today env1"
  shows "(mkdir_fault env1 = None \<and> open_fault env1 = None \<and> dump_fault env1 = None
          \<and> \<not> list_ex (\<lambda>q. files w q \<noteq> None) (dir_chain [] (dir_path_of env1))
          \<and> \<not> path_exists w (file_path_of env1)
          \<longrightarrow> fst (save_data env1 data1 w) = Inr True)
       \<and> (\<forall>w1. save_data env1 data1 w = (Inr True, w1) \<longrightarrow>
             files w1 (file_path_of env1) = Some (json_dumps data1)
             \<and> fst (save_data env2 data2 w1) = Inr False
             \<and> files (snd (save_data env2 data2 w1)) = files w1
             \<and> dirs (snd (save_data env2 data2 w1)) = dirs w1)"
proof (intro conjI allI impI)
  assume "mkdir_fault env1 = None \<and> open_fault env1 = None \<and> dump_fault env1 = None
          \<and> \<not> list_ex (\<lambda>q. files w q \<noteq> None) (dir_chain [] (dir_path_of env1))
          \<and> \<not> path_exists w (file_path_of env1)"
  then show "fst (save_data env1 data1 w) = Inr True"
    by (simp add: save_data_first_write)
next
  fix w1
  assume first: "save_data env1 data1 w = (Inr True, w1)"
  from save_data_wrote(2) [OF first]
  show content: "files w1 (file_path_of env1) = Some (json_dumps data1)" .
  from save_data_wrote(1) [OF first] same_paths [OF assms]
  have dir: "dir_path_of env2 \<in> dirs w1" by simp
  from content same_paths [OF assms] have there: "path_exists w1 (file_path_of env2)"
    by (simp add: path_exists_def)
  from save_data_skips [OF dir there]
  show "fst (save_data env2 data2 w1) = Inr False"
    "files (snd (save_data env2 data2 w1)) = files w1"
    "dirs (snd (save_data env2 data2 w1)) = dirs w1"
    by simp_all
qed

lemma sample_paths:
  "dir_path_of sample_env = ''data/2024-01-15''"
  "file_path_of sample_env = ''data/2024-01-15/trending.json''"
  by (simp_all add: dir_path_of_def file_path_of_def path_join_def sample_env_def)

text \<open>
  Two calls on 2024-01-15 in a fresh world, with different data.
\<close>

theorem save_data_twice_witness:
  "fst (save_data sample_env [linux_record] fresh_world) = Inr True
   \<and> files (snd (save_data sample_env [linux_record] fresh_world)) ''data/2024-01-15/trending.json''
       = Some (json_dumps [linux_record])
   \<and> fst (save_data sample_env [vscode_record]
            (snd (save_data sample_env [linux_record] fresh_world))) = Inr False
   \<and> files (snd (save_data sample_env [vscode_record]
            (snd (save_data sample_env [linux_record] fresh_world))))
       = files (snd (save_data sample_env [linux_record] fresh_world))"
proof -
  have pre: "mkdir_fault sample_env = None \<and> open_fault sample_env = None
      \<and> dump_fault sample_env = None
      \<and> \<not> list_ex (\<lambda>q. files fresh_world q \<noteq> None) (dir_chain [] (dir_path_of sample_env))
      \<and> \<not> path_exists fresh_world (file_path_of sample_env)"
    by (simp add: sample_env_def fresh_world_def path_exists_def list_ex_iff)
  note both = save_data_twice [of sample_env sample_env fresh_world "[linux_record]"
      "[vscode_record]", OF refl]
  from both pre have first: "fst (save_data sample_env [linux_record] fresh_world) = Inr True"
    by blast
  then have "save_data sample_env [linux_record] fresh_world
      = (Inr True, snd (save_data sample_env [linux_record] fresh_world))"
    by (metis prod.collapse)
  with both first show ?thesis by (simp add: sample_paths)
qed

lemma write_json_fails:
  assumes "open_fault env = Some e \<or> (open_fault env = None \<and> dump_fault env = Some (n, e))"
  shows "fst (write_json env p data w) = Inl e"
    and "logged (snd (write_json env p data w)) = logged w"
    and "printed (snd (write_json env p data w)) = printed w"
  using assms by (auto simp: write_json_def)

text \<open>
  C6.  When the call reaches the write (the directory is there and no artifact exists)
  and opening the file or dumping into it raises an Exception, save_data returns False
  instead of raising, logs one entry at error level that carries the cause, and prints
  the cause.
\<close>

theorem save_data_write_failure:
  assumes "makedirs env (dir_path_of env) w = (Inr (), w1)"
    and "\<not> path_exists w1 (file_path_of env)"
    and "open_fault env = Some e \<or> (open_fault env = None \<and> dump_fault env = Some (n, e))"
    and "is_Exception e"
  shows "fst (save_data env data w) = Inr False
       \<and> logged (snd (save_data env data w))
           = logged w @ [(ERROR, ''Error saving data to '' @ file_path_of env @ '': '' @ str_exn e)]
       \<and> printed (snd (save_data env data w))
           = printed w @ [''Error saving data: '' @ str_exn e]"
proof -
  obtain r w2 where wj: "write_json env (file_path_of env) data w1 = (r, w2)"
    by (cases "write_json env (file_path_of env) data w1") auto
  with write_json_fails [OF assms(3), of "file_path_of env" data w1]
  have r: "r = Inl e" and l: "logged w2 = logged w1" and p: "printed w2 = printed w1"
    by simp_all
  from makedirs_returns(3,4) [OF assms(1)] l p
  have "logged w2 = logged w" "printed w2 = printed w" by simp_all
  with assms(2,4) wj r show ?thesis
    by (simp add: save_data_unfold [OF assms(1)] py_print_def logging_error_def)
qed

text \<open>
  A read-only file system (the open fails) and a full disk (the dump fails).
\<close>

theorem save_data_write_failure_witness:
  "fst (save_data read_only_env [linux_record] fresh_world) = Inr False
   \<and> logged (snd (save_data read_only_env [linux_record] fresh_world))
       = [(ERROR, ''Error saving data to data/2024-01-15/trending.json: ''
                  @ ''[Errno 30] Read-only file system: data/2024-01-15/trending.json'')]
   \<and> fst (save_data disk_full_env [linux_record] fresh_world) = Inr False
   \<and> logged (snd (save_data disk_full_env [linux_record] fresh_world))
       = [(ERROR, ''Error saving data to data/2024-01-15/trending.json: ''
                  @ ''[Errno 28] No space left on device'')]
   \<and> printed (snd (save_data disk_full_env [linux_record] fresh_world))
       = [''Error saving data: [Errno 28] No space left on device'']"
proof -
  let ?made = "fresh_world\<lparr>dirs := {''data'', ''data/2024-01-15''}\<rparr>"
  have ro_paths: "dir_path_of read_only_env = ''data/2024-01-15''"
    "file_path_of read_only_env = ''data/2024-01-15/trending.json''"
    by (simp_all add: dir_path_of_def file_path_of_def path_join_def read_only_env_def
        sample_env_def)
  have df_paths: "dir_path_of disk_full_env = ''data/2024-01-15''"
    "file_path_of disk_full_env = ''data/2024-01-15/trending.json''"
    by (simp_all add: dir_path_of_def file_path_of_def path_join_def disk_full_env_def
        sample_env_def)
  have ro_dir: "makedirs read_only_env (dir_path_of read_only_env) fresh_world = (Inr (), ?made)"
    unfolding ro_paths
    by (simp add: makedirs_def read_only_env_def sample_env_def fresh_world_def)
  have df_dir: "makedirs disk_full_env (dir_path_of disk_full_env) fresh_world = (Inr (), ?made)"
    unfolding df_paths
    by (simp add: makedirs_def disk_full_env_def sample_env_def fresh_world_def)
  have ro_new: "\<not> path_exists ?made (file_path_of read_only_env)"
    unfolding ro_paths by (simp add: path_exists_def fresh_world_def)
  have df_new: "\<not> path_exists ?made (file_path_of disk_full_env)"
    unfolding df_paths by (simp add: path_exists_def fresh_world_def)
  have ro_fault: "open_fault read_only_env
        = Some (OSError ''[Errno 30] Read-only file system: data/2024-01-15/trending.json'')
      \<or> (open_fault read_only_env = None \<and> dump_fault read_only_env
        = Some (0, OSError ''[Errno 30] Read-only file system: data/2024-01-15/trending.json''))"
    by (simp add: read_only_env_def)
  have df_fault: "open_fault disk_full_env = Some (OSError ''[Errno 28] No space left on device'')
      \<or> (open_fault disk_full_env = None
          \<and> dump_fault disk_full_env = Some (10, OSError ''[Errno 28] No space left on device''))"
    by (simp add: disk_full_env_def sample_env_def)
  from save_data_write_failure [OF ro_dir ro_new ro_fault, of "[linux_record]"]
    save_data_write_failure [OF df_dir df_new df_fault, of "[linux_record]"]
  show ?thesis by (simp add: ro_paths df_paths fresh_world_def)
qed

lemma partial_dump: "n < length s \<Longrightarrow> take n s \<noteq> s"
  by (metis length_take min.absorb4 nat_neq_iff)

text \<open>
  C10.  When the dump fails after \<open>n\<close> bytes, save_data returns False and the artifact
  holds the first \<open>n\<close> bytes of the dump (not the whole dump when \<open>n\<close> is less than
  its length); and from then on, as long as the files and directories are as that call
  left them, every call of save_data for the same UTC date returns False and writes
  nothing.
\<close>

theorem save_data_failed_write_is_final:
  assumes "makedirs env (dir_path_of env) w = (Inr (), w0)"
    and "\<not> path_exists w0 (file_path_of env)"
    and "open_fault env = None" and "dump_fault env = Some (n, e)" and "is_Exception e"
  shows "fst (save_data env data w) = Inr False
       \<and> files (snd (save_data env data w)) (file_path_of env) = Some (take n (json_dumps data))
       \<and> (n < length (json_dumps data) \<longrightarrow>
            files (snd (save_data env data w)) (file_path_of env) \<noteq> Some (json_dumps data))
       \<and> (\<forall>env' data' w'.
            utc_today env' = utc_today env
            \<and> files w' = files (snd (save_data env data w))
            \<and> dirs w' = dirs (snd (save_data env data w)) \<longrightarrow>
              fst (save_data env' data' w') = Inr False
              \<and> files (snd (save_data env' data' w')) = files w'
              \<and> dirs (snd (save_data env' data' w')) = dirs w')"
proof -
  let ?w1 = "snd (save_data env data w)"
  from assms(2-5) have result: "save_data env data w
      = (Inr False,
         py_print (''Error saving data: '' @ str_exn e)
           (logging_error (''Error saving data to '' @ file_path_of env @ '': '' @ str_exn e)
              (w0\<lparr>files := (files w0)(file_path_of env \<mapsto> take n (json_dumps data))\<rparr>)))"
    by (simp add: save_data_unfold [OF assms(1)] write_json_def)
  then have ret: "fst (save_data env data w) = Inr False" by simp
  from result have content: "files ?w1 (file_path_of env) = Some (take n (json_dumps data))"
    by (simp add: py_print_def logging_error_def)
  from result makedirs_returns(1) [OF assms(1)] have dir: "dir_path_of env \<in> dirs ?w1"
    by (simp add: py_print_def logging_error_def)
  have later: "fst (save_data env' data' w') = Inr False
      \<and> files (snd (save_data env' data' w')) = files w'
      \<and> dirs (snd (save_data env' data' w')) = dirs w'"
    if "utc_today env' = utc_today env \<and> files w' = files ?w1 \<and> dirs w' = dirs ?w1"
    for env' data' w'
  proof -
    from that same_paths [of env' env] dir have d: "dir_path_of env' \<in> dirs w'" by simp
    from that same_paths [of env' env] content have f: "path_exists w' (file_path_of env')"
      by (simp add: path_exists_def)
    from save_data_skips(1-3) [OF d f] show ?thesis by simp
  qed
  have partial: "n < length (json_dumps data) \<longrightarrow>
      files ?w1 (file_path_of env) \<noteq> Some (json_dumps data)"
    using content partial_dump [of n "json_dumps data"] by simp
  from ret content partial later show ?thesis by blast
qed

lemma ten_bytes:
  "take 10 (json_dumps [linux_record]) = ''['' @ [CHR 0x0A] @ ''  {'' @ [CHR 0x0A] @ ''    ''"
  by code_simp

text \<open>
  The disk is full after ten bytes; the next call, with nothing failing, skips the save.
\<close>

theorem save_data_failed_write_is_final_witness:
  "fst (save_data disk_full_env [linux_record] fresh_world) = Inr False
   \<and> files (snd (save_data disk_full_env [linux_record] fresh_world))
         ''data/2024-01-15/trending.json''
       = Some (''['' @ [CHR 0x0A] @ ''  {'' @ [CHR 0x0A] @ ''    '')
   \<and> files (snd (save_data disk_full_env [linux_record] fresh_world))
         ''data/2024-01-15/trending.json''
       \<noteq> Some (json_dumps [linux_record])
   \<and> fst (save_data sample_env [linux_record]
            (snd (save_data disk_full_env [linux_record] fresh_world))) = Inr False
   \<and> files (snd (save_data sample_env [linux_record]
            (snd (save_data disk_full_env [linux_record] fresh_world))))
       = files (snd (save_data disk_full_env [linux_record] fresh_world))"
proof -
  let ?made = "fresh_world\<lparr>dirs := {''data'', ''data/2024-01-15''}\<rparr>"
  let ?w1 = "snd (save_data disk_full_env [linux_record] fresh_world)"
  have paths: "dir_path_of disk_full_env = ''data/2024-01-15''"
    "file_path_of disk_full_env = ''data/2024-01-15/trending.json''"
    by (simp_all add: dir_path_of_def file_path_of_def path_join_def disk_full_env_def
        sample_env_def)
  have made: "makedirs disk_full_env (dir_path_of disk_full_env) fresh_world = (Inr (), ?made)"
    unfolding paths
    by (simp add: makedirs_def disk_full_env_def sample_env_def fresh_world_def)
  have new: "\<not> path_exists ?made (file_path_of disk_full_env)"
    unfolding paths by (simp add: path_exists_def fresh_world_def)
  have faults: "open_fault disk_full_env = None"
    "dump_fault disk_full_env = Some (10, OSError ''[Errno 28] No space left on device'')"
    "is_Exception (OSError ''[Errno 28] No space left on device'')"
    by (simp_all add: disk_full_env_def sample_env_def)
  have short: "10 < length (json_dumps [linux_record])"
    by code_simp
  have date: "utc_today sample_env = utc_today disk_full_env"
    by (simp add: disk_full_env_def)
  note final = save_data_failed_write_is_final [OF made new faults, of "[linux_record]"]
  from final have first: "fst (save_data disk_full_env [linux_record] fresh_world) = Inr False"
    and content: "files ?w1 (file_path_of disk_full_env)
        = Some (take 10 (json_dumps [linux_record]))"
    by blast+
  from final short have partial:
    "files ?w1 (file_path_of disk_full_env) \<noteq> Some (json_dumps [linux_record])"
    by blast
  from final date have later: "fst (save_data sample_env [linux_record] ?w1) = Inr False
      \<and> files (snd (save_data sample_env [linux_record] ?w1)) = files ?w1"
    by blast
  from first content partial later show ?thesis
    unfolding paths ten_bytes by blast
qed

subsection \<open>The orchestrator\<close>



















end
